theory Spec2Isabelle
  imports Complex_Main "HOL-Library.Word"
begin

section \<open>GridMaker: the configuration object of grid\_maker.h\<close>

text \<open>
  The header \<^verbatim>\<open>src/include/libmolgrid/grid_maker.h\<close> declares the class
  \<^verbatim>\<open>GridMaker\<close>. Its inline members (the constructor, the setters and the
  overloads that take a \<^verbatim>\<open>CoordinateSet\<close>) are embedded here as they are
  written. A value of the C++ type \<^verbatim>\<open>float\<close> is a real number, and an argument
  is the \<^verbatim>\<open>float\<close> the caller passes (the literal \<^verbatim>\<open>0.1\<close> arrives as
  \<open>0.1f = 13421773 / 2 ^ 27\<close>). The one piece of arithmetic the header itself
  performs, the quotient in the voxel count, is rounded to binary32 as the machine
  rounds it. \<open>unsigned\<close> is a 32-bit word.
\<close>

type_synonym float = real

text \<open>CUDA's \<^verbatim>\<open>float3\<close>, built by \<^verbatim>\<open>make_float3(x, y, z)\<close>.\<close>

datatype float3 = make_float3 float float float

text \<open>
  The data members of the class, lines 35 to 46, in declaration order. \<open>A\<close>, \<open>B\<close>,
  \<open>C\<close> are the "precalculated coefficients for density", \<open>D\<close>, \<open>E\<close> the
  "precalculate coefficients for backprop".
\<close>

record GridMaker =
  resolution :: float
  dimension :: float
  radius_scale :: float
  gaussian_radius_multiple :: float
  final_radius_multiple :: float
  A :: float
  B :: float
  C :: float
  D :: float
  E :: float
  binary :: bool
  dim :: "32 word"

text \<open>
  \<^verbatim>\<open>::round\<close> of the C library: to the nearest integer, halfway cases away
  from zero (HOL's \<open>round\<close> sends them upwards, which differs below zero).
\<close>

definition c_round :: "float \<Rightarrow> int" where
  "c_round v = (if 0 \<le> v then \<lfloor>v + 1 / 2\<rfloor> else - \<lfloor>1 / 2 - v\<rfloor>)"

subsection \<open>Single-precision division\<close>

text \<open>
  IEEE 754 binary32 has 24 significant bits, exponents from \<open>-126\<close> to \<open>127\<close> and
  subnormal numbers below; a result is rounded to the nearest representable number,
  halfway cases to the one with an even significand.
\<close>

definition round_half_even :: "real \<Rightarrow> int" where
  "round_half_even v =
     (let n = \<lfloor>v\<rfloor>
      in if v - of_int n < 1 / 2 then n
         else if 1 / 2 < v - of_int n then n + 1
         else if even n then n else n + 1)"

definition pow2 :: "int \<Rightarrow> real" where
  "pow2 e = (if 0 \<le> e then 2 ^ nat e else 1 / 2 ^ nat (- e))"

text \<open>
  The nearest binary32 number: a real \<open>v\<close> with \<open>2 ^ k \<le> |v| < 2 ^ (k + 1)\<close> is
  rounded to a multiple of \<open>2 ^ (k - 23)\<close>, and to a multiple of \<open>2 ^ (-149)\<close> in the
  subnormal range.
\<close>

definition to_binary32 :: "real \<Rightarrow> real" where
  "to_binary32 v =
     (if v = 0 then 0
      else let e = max (\<lfloor>log 2 \<bar>v\<bar>\<rfloor> - 23) (- 149)
           in of_int (round_half_even (v / pow2 e)) * pow2 e)"

text \<open>
  The quotient \<^verbatim>\<open>a / b\<close> of two \<^verbatim>\<open>float\<close>s. It is an infinity or a NaN, here
  \<open>None\<close>, when the divisor is 0 or the exact quotient rounds beyond the largest
  finite binary32 number \<open>(2 ^ 24 - 1) * 2 ^ 104\<close>.
\<close>

definition float_div :: "float \<Rightarrow> float \<Rightarrow> float option" where
  "float_div a b =
     (if b = 0 \<or> (2 ^ 24 - 1 / 2) * 2 ^ 104 \<le> \<bar>a / b\<bar> then None
      else Some (to_binary32 (a / b)))"

subsection \<open>The setters\<close>

text \<open>
  The right-hand side of the assignment both setters make,
  \<^verbatim>\<open>dim = ::round(dimension / resolution) + 1;\<close>
  with its conversion to \<^verbatim>\<open>unsigned\<close>. The division is the binary32 one;
  \<^verbatim>\<open>::round\<close> of a finite \<^verbatim>\<open>float\<close> is an integer and exact; adding 1 is exact
  as long as the sum is at most \<open>2 ^ 24\<close>, whether \<^verbatim>\<open>::round\<close> is taken at
  \<^verbatim>\<open>float\<close> or at \<^verbatim>\<open>double\<close>. C++ defines no result for the conversion of an
  infinity, a NaN or a negative number to \<^verbatim>\<open>unsigned\<close>, and beyond \<open>2 ^ 24\<close> the
  sum depends on which \<^verbatim>\<open>::round\<close> the compiler picks: there the model has HOL's
  \<open>undefined\<close>, of which nothing can be proved.
\<close>

definition recomputed_dim :: "float \<Rightarrow> float \<Rightarrow> 32 word" where
  "recomputed_dim d r =
     (case float_div d r of
        None \<Rightarrow> undefined
      | Some q \<Rightarrow>
          let v = c_round q + 1
          in if 0 \<le> v \<and> v \<le> 2 ^ 24 then word_of_int v else undefined)"

text \<open>
  Line 84:
  \<^verbatim>\<open>void set_resolution(float res) { resolution = res; dim = ::round(dimension / resolution) + 1; }\<close>
\<close>

definition set_resolution :: "float \<Rightarrow> GridMaker \<Rightarrow> GridMaker" where
  "set_resolution res gm =
     (let gm1 = gm\<lparr>resolution := res\<rparr>
      in gm1\<lparr>dim := recomputed_dim (dimension gm1) (resolution gm1)\<rparr>)"

text \<open>
  Line 89:
  \<^verbatim>\<open>void set_dimension(float d) { dimension = d; dim = ::round(dimension / resolution) + 1; }\<close>
\<close>

definition set_dimension :: "float \<Rightarrow> GridMaker \<Rightarrow> GridMaker" where
  "set_dimension d gm =
     (let gm1 = gm\<lparr>dimension := d\<rparr>
      in gm1\<lparr>dim := recomputed_dim (dimension gm1) (resolution gm1)\<rparr>)"

text \<open>Line 96: \<^verbatim>\<open>void set_binary(bool b) { binary = b; }\<close>\<close>

definition set_binary :: "bool \<Rightarrow> GridMaker \<Rightarrow> GridMaker" where
  "set_binary b gm = gm\<lparr>binary := b\<rparr>"

text \<open>Line 99: \<^verbatim>\<open>float get_radiusmultiple() const { return radius_scale*final_radius_multiple; }\<close>\<close>

definition get_radiusmultiple :: "GridMaker \<Rightarrow> float" where
  "get_radiusmultiple gm = radius_scale gm * final_radius_multiple gm"

text \<open>Lines 76 to 78: \<^verbatim>\<open>return make_float3(dim, dim, dim);\<close>\<close>

definition get_grid_dims :: "GridMaker \<Rightarrow> float3" where
  "get_grid_dims gm =
     make_float3 (real (unat (dim gm))) (real (unat (dim gm))) (real (unat (dim gm)))"

text \<open>The five cached coefficients of a configuration, read together.\<close>

type_synonym coefficients = "float \<times> float \<times> float \<times> float \<times> float"

definition coefficients_of :: "GridMaker \<Rightarrow> coefficients" where
  "coefficients_of gm = (A gm, B gm, C gm, D gm, E gm)"

text \<open>
  Modelled from the spec: \<^verbatim>\<open>GridMaker::initialize\<close> is only declared in the header
  (line 73); its body is not among the sources. The spec says that
  \<^verbatim>\<open>initialize(resolution, dimension, binary, radius_scale, gaussian_radius_multiple)\<close>
  "recomputes dim, A, B, C, D, E", that \<open>dim = round(dimension/resolution) + 1\<close> (the
  assignment the two setters of the header make, modelled as there), and that
  \<open>final_radius_multiple\<close> is recomputed from \<open>G = gaussian_radius_multiple\<close> as
  \<open>(1 + 2G\<^sup>2)/(2G)\<close>, the formula the header's own comment on the field gives (lines 39
  to 41). The spec describes the coefficients through \<open>G\<close> but gives no formula for
  them, so the function \<open>cf\<close> from \<open>G\<close> to the five coefficients is a parameter.
\<close>

definition initialize ::
  "(float \<Rightarrow> coefficients) \<Rightarrow> float \<Rightarrow> float \<Rightarrow> bool \<Rightarrow> float \<Rightarrow> float \<Rightarrow>
     GridMaker \<Rightarrow> GridMaker" where
  "initialize cf res d bin rscale grm gm =
     (case cf grm of (a, b, c, d', e) \<Rightarrow>
        gm\<lparr>resolution := res, dimension := d, radius_scale := rscale,
           gaussian_radius_multiple := grm,
           final_radius_multiple := (1 + 2 * grm * grm) / (2 * grm),
           binary := bin,
           dim := recomputed_dim d res,
           A := a, B := b, C := c, D := d', E := e\<rparr>)"

text \<open>
  The constructor, lines 59 to 62:
  \<^verbatim>\<open>
  GridMaker(float res = 0, float d = 0, bool bin = false, float rscale=1.0, float grm = 1.0) :
    resolution(res), dimension(d), radius_scale(rscale), gaussian_radius_multiple(grm),
    final_radius_multiple(0), binary(bin) {
      initialize(res, d, bin, rscale, grm);
    }
  \<close>
  The initialiser list leaves \<open>A\<close> to \<open>E\<close> and \<open>dim\<close> unset; \<open>raw\<close> is the
  storage the object is built in, whatever it holds.
\<close>

definition GridMaker ::
  "(float \<Rightarrow> coefficients) \<Rightarrow> GridMaker \<Rightarrow> float \<Rightarrow> float \<Rightarrow> bool \<Rightarrow> float \<Rightarrow> float \<Rightarrow>
     GridMaker" where
  "GridMaker cf raw res d bin rscale grm =
     initialize cf res d bin rscale grm
       (raw\<lparr>resolution := res, dimension := d, radius_scale := rscale,
            gaussian_radius_multiple := grm, final_radius_multiple := 0, binary := bin\<rparr>)"

text \<open>
  The configurations a caller can reach through the public interface: construct, then
  call \<^verbatim>\<open>initialize\<close> and the setters in any order.
\<close>

inductive reachable :: "(float \<Rightarrow> coefficients) \<Rightarrow> GridMaker \<Rightarrow> bool"
  for cf :: "float \<Rightarrow> coefficients" where
  constructed: "reachable cf (GridMaker cf raw res d bin rscale grm)"
| initialized: "reachable cf gm \<Longrightarrow> reachable cf (initialize cf res d bin rscale grm gm)"
| resolution_set: "reachable cf gm \<Longrightarrow> reachable cf (set_resolution res gm)"
| dimension_set: "reachable cf gm \<Longrightarrow> reachable cf (set_dimension d gm)"
| binary_set: "reachable cf gm \<Longrightarrow> reachable cf (set_binary b gm)"

section \<open>The overloads that take a CoordinateSet\<close>

text \<open>
  Tensors: \<^verbatim>\<open>Grid<float, 1>\<close> is a list, \<^verbatim>\<open>Grid<float, 2>\<close> a list of rows,
  \<^verbatim>\<open>Grid<Dtype, 4>\<close> four levels of lists, channels outermost.
\<close>

type_synonym grid1 = "float list"
type_synonym grid2 = "float list list"
type_synonym grid4 = "float list list list list"

text \<open>
  \<^verbatim>\<open>CoordinateSet\<close> is declared in \<^verbatim>\<open>libmolgrid/coordinateset.h\<close>, which is not
  among the sources. The header reads four tensors of it and asks it two questions,
  \<^verbatim>\<open>has_indexed_types()\<close> and \<^verbatim>\<open>has_vector_types()\<close>; their answers are taken
  as given with the value. \<^verbatim>\<open>.cpu()\<close> and \<^verbatim>\<open>.gpu()\<close> give a view of the same
  tensor in host or device memory, so the host and the device overload of each
  operation are one definition.
\<close>

record CoordinateSet =
  coords :: grid2
  type_index :: grid1
  type_vector :: grid2
  radii :: grid1
  has_indexed_types :: bool
  has_vector_types :: bool

text \<open>The exceptions the header throws, with their messages.\<close>

datatype exception = invalid_argument string | out_of_range string

text \<open>
  A call either returns, leaving the output tensors as \<open>Returns\<close> holds them, or
  throws, leaving them as \<open>Throws\<close> holds them.
\<close>

datatype 'o outcome = Returns 'o | Throws exception 'o

text \<open>
  Lines 113 to 134, the host and the device overload:
  \<^verbatim>\<open>
  void forward(float3 grid_center, const CoordinateSet& in, Grid<Dtype, 4, false>& out) const {
    if(in.has_indexed_types()) {
      forward(grid_center, in.coords.cpu(), in.type_index.cpu(), in.radii.cpu(), out);
    } else {
      forward(grid_center, in.coords.cpu(), in.type_vector.cpu(), in.radii.cpu(), out);
    }
  }
  \<close>
  The two tensor-level overloads it calls are only declared in the header (lines 191 to
  231); they are the parameters \<open>forward_index\<close> and \<open>forward_vector\<close>.
\<close>

definition forward_coordset ::
  "(float3 \<Rightarrow> grid2 \<Rightarrow> grid1 \<Rightarrow> grid1 \<Rightarrow> grid4 \<Rightarrow> grid4 outcome) \<Rightarrow>
   (float3 \<Rightarrow> grid2 \<Rightarrow> grid2 \<Rightarrow> grid1 \<Rightarrow> grid4 \<Rightarrow> grid4 outcome) \<Rightarrow>
   float3 \<Rightarrow> CoordinateSet \<Rightarrow> grid4 \<Rightarrow> grid4 outcome" where
  "forward_coordset forward_index forward_vector grid_center inp out =
     (if has_indexed_types inp
      then forward_index grid_center (coords inp) (type_index inp) (radii inp) out
      else forward_vector grid_center (coords inp) (type_vector inp) (radii inp) out)"

text \<open>
  Lines 243 to 251 and 280 to 288, the overload that also produces type gradients:
  \<^verbatim>\<open>
  void backward(float3 grid_center, const CoordinateSet& in, const Grid<Dtype, 4, false>& diff,
      Grid<Dtype, 2, false>& atomic_gradients, Grid<Dtype, 2, false>& type_gradients) const {
    if(in.has_vector_types()) {
      backward(grid_center, in.coords.cpu(), in.type_vector.cpu(), in.radii.cpu(), diff,
               atomic_gradients, type_gradients);
    } else {
      throw std::invalid_argument("Vector types missing from coordinate set");
    }
  }
  \<close>
  \<open>backward_vector\<close> is the tensor-level overload, declared at lines 346 to 367.
\<close>

definition backward_coordset_types ::
  "(float3 \<Rightarrow> grid2 \<Rightarrow> grid2 \<Rightarrow> grid1 \<Rightarrow> grid4 \<Rightarrow> grid2 \<Rightarrow> grid2 \<Rightarrow> (grid2 \<times> grid2) outcome) \<Rightarrow>
   float3 \<Rightarrow> CoordinateSet \<Rightarrow> grid4 \<Rightarrow> grid2 \<Rightarrow> grid2 \<Rightarrow> (grid2 \<times> grid2) outcome" where
  "backward_coordset_types backward_vector grid_center inp diff atomic_gradients type_gradients =
     (if has_vector_types inp
      then backward_vector grid_center (coords inp) (type_vector inp) (radii inp) diff
             atomic_gradients type_gradients
      else Throws (invalid_argument ''Vector types missing from coordinate set'')
             (atomic_gradients, type_gradients))"

text \<open>
  Lines 261 to 269 and 298 to 306, the overload that produces atom gradients only:
  \<^verbatim>\<open>
    if(in.has_indexed_types()) {
      backward(grid_center, in.coords.cpu(), in.type_index.cpu(), in.radii.cpu(), diff, atomic_gradients);
    } else {
      throw std::invalid_argument("Index types missing from coordinate set");
    }
  \<close>
  \<open>backward_index\<close> is the tensor-level overload, declared at lines 317 to 334.
\<close>

definition backward_coordset ::
  "(float3 \<Rightarrow> grid2 \<Rightarrow> grid1 \<Rightarrow> grid1 \<Rightarrow> grid4 \<Rightarrow> grid2 \<Rightarrow> grid2 outcome) \<Rightarrow>
   float3 \<Rightarrow> CoordinateSet \<Rightarrow> grid4 \<Rightarrow> grid2 \<Rightarrow> grid2 outcome" where
  "backward_coordset backward_index grid_center inp diff atomic_gradients =
     (if has_indexed_types inp
      then backward_index grid_center (coords inp) (type_index inp) (radii inp) diff
             atomic_gradients
      else Throws (invalid_argument ''Index types missing from coordinate set'')
             atomic_gradients)"

text \<open>
  Lines 377 to 386 and 396 to 405:
  \<^verbatim>\<open>
    if(in.has_indexed_types()) {
      backward_relevance(grid_center, in.coords.cpu(), in.type_index.cpu(), in.radii.cpu(),
                         density, diff, relevance);
    } else {
      throw std::invalid_argument("Index types missing from coordinate set in backward relevance");
    }
  \<close>
  \<open>relevance_index\<close> is the tensor-level overload, declared at lines 417 to 437.
\<close>

definition backward_relevance_coordset ::
  "(float3 \<Rightarrow> grid2 \<Rightarrow> grid1 \<Rightarrow> grid1 \<Rightarrow> grid4 \<Rightarrow> grid4 \<Rightarrow> grid1 \<Rightarrow> grid1 outcome) \<Rightarrow>
   float3 \<Rightarrow> CoordinateSet \<Rightarrow> grid4 \<Rightarrow> grid4 \<Rightarrow> grid1 \<Rightarrow> grid1 outcome" where
  "backward_relevance_coordset relevance_index grid_center inp density diff relevance =
     (if has_indexed_types inp
      then relevance_index grid_center (coords inp) (type_index inp) (radii inp) density diff
             relevance
      else Throws
             (invalid_argument ''Index types missing from coordinate set in backward relevance'')
             relevance)"

section \<open>Type gradients of the vector-mode backward\<close>

text \<open>
  The tensor-level operations and their helpers are declared in the header and defined
  elsewhere; what follows is taken from the spec, with the signatures of the header.
\<close>

text \<open>
  Modelled from the spec: \<^verbatim>\<open>get_grid_origin\<close> is only declared (line 106). Spec,
  section 4.1: "\<open>grid_origin = grid_center - dimension/2\<close> on each axis".
\<close>

definition get_grid_origin :: "GridMaker \<Rightarrow> float3 \<Rightarrow> float3" where
  "get_grid_origin gm grid_center =
     (case grid_center of make_float3 cx cy cz \<Rightarrow>
        make_float3 (cx - dimension gm / 2) (cy - dimension gm / 2) (cz - dimension gm / 2))"

text \<open>
  Modelled from the spec: \<^verbatim>\<open>get_bounds_1d(grid_origin, coord, densityrad)\<close> is only
  declared (lines 488 to 489). Spec, section 4.3, with \<open>c\<close> the coordinate and \<open>R\<close>
  the density radius: "\<open>lo = max(0, ceil((c - R - grid_origin_axis) / resolution))\<close>",
  "\<open>hi = min(dim - 1, floor((c + R - grid_origin_axis) / resolution))\<close>", an inclusive
  interval that is empty when \<open>hi < lo\<close>.
\<close>

definition get_bounds_1d :: "GridMaker \<Rightarrow> float \<Rightarrow> float \<Rightarrow> float \<Rightarrow> int \<times> int" where
  "get_bounds_1d gm grid_origin coord densityrad =
     (max 0 \<lceil>(coord - densityrad - grid_origin) / resolution gm\<rceil>,
      min (uint (dim gm) - 1) \<lfloor>(coord + densityrad - grid_origin) / resolution gm\<rfloor>)"

text \<open>
  Modelled from the spec: \<^verbatim>\<open>calc_point(ax, ay, az, ar, grid_coords)\<close> is only declared
  (lines 497 to 499). Spec, section 4.2, with \<open>r = radius_scale * ar\<close> and \<open>d\<close> the
  Euclidean distance from the atom centre to the grid point: \<open>exp(-2 d\<^sup>2 / r\<^sup>2)\<close> for
  \<open>d < r\<close>; \<open>A d\<^sup>2 + B d + C\<close> for \<open>r \<le> d < final_radius_multiple * r\<close>; 0 beyond.
  This is the density without the binary clamp.
\<close>

definition calc_point :: "GridMaker \<Rightarrow> float \<Rightarrow> float \<Rightarrow> float \<Rightarrow> float \<Rightarrow> float3 \<Rightarrow> float" where
  "calc_point gm ax ay az ar grid_coords =
     (case grid_coords of make_float3 px py pz \<Rightarrow>
        let r = radius_scale gm * ar;
            dist = sqrt ((px - ax)\<^sup>2 + (py - ay)\<^sup>2 + (pz - az)\<^sup>2)
        in if dist < r then exp (- 2 * dist\<^sup>2 / r\<^sup>2)
           else if dist < final_radius_multiple gm * r
                then A gm * dist\<^sup>2 + B gm * dist + C gm
                else 0)"

text \<open>
  Modelled from the spec: \<^verbatim>\<open>calc_type_gradient_cpu(grid_origin, coord, diff, radius)\<close>
  is only declared (lines 473 to 474: "calculate gradient of type for type vector
  case"); \<open>coord\<close> is one row of the coordinates and \<open>diff\<close> the gradient grid of one
  channel. Spec, section 4.5: iterate the atom's bounding box (section 4.3 on each axis,
  with the cutoff \<open>R = final_radius_multiple * radius_scale * radii[n]\<close>); at each voxel
  \<open>(i, j, k)\<close>, whose world point is \<open>grid_origin + (i, j, k) * resolution\<close>, add
  \<open>g * f(d)\<close> where \<open>g\<close> is the channel's \<open>diff\<close> at the voxel. The three loops run
  with an accumulator that starts at 0.
\<close>

definition calc_type_gradient_cpu ::
  "GridMaker \<Rightarrow> float3 \<Rightarrow> grid1 \<Rightarrow> float list list list \<Rightarrow> float \<Rightarrow> float" where
  "calc_type_gradient_cpu gm grid_origin coord diff radius =
     (case grid_origin of make_float3 ox oy oz \<Rightarrow>
        let ax = coord ! 0; ay = coord ! 1; az = coord ! 2;
            densityrad = final_radius_multiple gm * radius_scale gm * radius;
            (lox, hix) = get_bounds_1d gm ox ax densityrad;
            (loy, hiy) = get_bounds_1d gm oy ay densityrad;
            (loz, hiz) = get_bounds_1d gm oz az densityrad
        in fold (\<lambda>i. fold (\<lambda>j. fold (\<lambda>k ret.
               ret + diff ! nat i ! nat j ! nat k
                 * calc_point gm ax ay az radius
                     (make_float3 (ox + of_int i * resolution gm)
                        (oy + of_int j * resolution gm) (oz + of_int k * resolution gm)))
             [loz..hiz]) [loy..hiy]) [lox..hix] 0)"

text \<open>
  Modelled from the spec: the tensor-level vector-mode \<^verbatim>\<open>backward\<close> is only declared
  (lines 346 to 350). This is its \<open>type_gradients\<close> output, an \<open>N \<times> T\<close> tensor the
  header documents as an output parameter: entry \<open>[n][t]\<close> is the type gradient of atom
  \<open>n\<close> against channel \<open>t\<close> of \<open>diff\<close>. The type vectors are an argument of the
  operation; the spec's formula for the type gradient does not read them.
\<close>

definition backward_type_gradients ::
  "GridMaker \<Rightarrow> float3 \<Rightarrow> grid2 \<Rightarrow> grid2 \<Rightarrow> grid1 \<Rightarrow> grid4 \<Rightarrow> grid2" where
  "backward_type_gradients gm grid_center atom_coords type_vectors atom_radii diff =
     map (\<lambda>n. map (\<lambda>t. calc_type_gradient_cpu gm (get_grid_origin gm grid_center)
                          (atom_coords ! n) (diff ! t) (atom_radii ! n))
                 [0..<length diff])
         [0..<length atom_coords]"

section \<open>Example values\<close>

text \<open>Storage filled with zero bytes, for building example objects in.\<close>

definition zeroed :: GridMaker where
  "zeroed =
     \<lparr>resolution = 0, dimension = 0, radius_scale = 0, gaussian_radius_multiple = 0,
      final_radius_multiple = 0, A = 0, B = 0, C = 0, D = 0, E = 0, binary = False,
      dim = 0\<rparr>"

text \<open>
  A coordinate set of one atom at the origin with radius 2 and indexed type 0, and one
  with the type vector \<open>[0, 1]\<close>, as \<^verbatim>\<open>src/test/test_gridmaker.cpp\<close> builds them
  (lines 104 to 108 and 210 to 214).
\<close>

definition indexed_atom :: CoordinateSet where
  "indexed_atom =
     \<lparr>coords = [[0, 0, 0]], type_index = [0], type_vector = [], radii = [2],
      has_indexed_types = True, has_vector_types = False\<rparr>"

definition vector_atom :: CoordinateSet where
  "vector_atom =
     \<lparr>coords = [[0, 0, 0]], type_index = [], type_vector = [[0, 1]], radii = [2],
      has_indexed_types = False, has_vector_types = True\<rparr>"

text \<open>
  The gradient grid of the test \<^verbatim>\<open>backward_vec\<close> (lines 215 to 217): two channels
  of \<open>61\<^sup>3\<close> zeros, except \<^verbatim>\<open>diff(0, 30, 30, 30) = 1.0\<close>.
\<close>

definition zero_channel :: "float list list list" where
  "zero_channel = replicate 61 (replicate 61 (replicate 61 0))"

definition test_diff :: grid4 where
  "test_diff =
     [zero_channel[30 := (replicate 61 (replicate 61 0))[30 := (replicate 61 0)[30 := 1]]],
      zero_channel]"

section \<open>Single-precision rounding at given values\<close>

lemma pow2_powr: "pow2 e = 2 powr (of_int e)"
  unfolding pow2_def
  by (auto simp: powr_realpow [symmetric] powr_minus_divide)

lemma pow2_positive: "0 < pow2 e"
  by (simp add: pow2_def)

lemma floor_log2:
  assumes "pow2 k \<le> \<bar>v\<bar>" and "\<bar>v\<bar> < pow2 (k + 1)"
  shows "\<lfloor>log 2 \<bar>v\<bar>\<rfloor> = k"
proof -
  have pos: "0 < \<bar>v\<bar>"
    using assms(1) pow2_positive [of k] by linarith
  have lo: "of_int k \<le> log 2 \<bar>v\<bar>"
    using assms(1) pos by (simp add: pow2_powr le_log_iff)
  have hi: "log 2 \<bar>v\<bar> < of_int k + 1"
    using assms(2) pos by (simp add: pow2_powr log_less_iff)
  from lo hi show ?thesis by linarith
qed

lemma to_binary32_in_binade:
  assumes "pow2 k \<le> \<bar>v\<bar>" and "\<bar>v\<bar> < pow2 (k + 1)" and "- 126 \<le> k"
  shows "to_binary32 v = of_int (round_half_even (v / pow2 (k - 23))) * pow2 (k - 23)"
proof -
  have "0 < \<bar>v\<bar>"
    using assms(1) pow2_positive [of k] by linarith
  then have "v \<noteq> 0" by auto
  moreover have "max (\<lfloor>log 2 \<bar>v\<bar>\<rfloor> - 23) (- 149) = k - 23"
    using floor_log2 [OF assms(1,2)] assms(3) by simp
  ultimately show ?thesis
    by (simp add: to_binary32_def Let_def)
qed

text \<open>\<open>0.1f\<close>, the \<^verbatim>\<open>float\<close> nearest to one tenth, is \<open>13421773 / 2 ^ 27\<close>.\<close>

lemma one_tenth_binary32: "to_binary32 (1 / 10) = 13421773 / 134217728"
  using to_binary32_in_binade [of "- 4" "1 / 10"]
  by (simp add: pow2_def round_half_even_def)





lemma float_div_6_by_real_tenth: "float_div 6 (1 / 10) = Some 60"
  using to_binary32_in_binade [of 5 "6 / (1 / 10)"]
  by (simp add: float_div_def pow2_def round_half_even_def)

section \<open>The voxel count\<close>


lemma recomputed_dim_61: "recomputed_dim 6 (1 / 10) = 61"
  by (simp add: recomputed_dim_def float_div_6_by_real_tenth c_round_def)



lemma dim_initialize:
  "dim (initialize cf res d bin rscale grm gm) = recomputed_dim d res"
  by (simp add: initialize_def split: prod.split)

lemma fields_set_resolution:
  "resolution (set_resolution res gm) = res"
  "dimension (set_resolution res gm) = dimension gm"
  "radius_scale (set_resolution res gm) = radius_scale gm"
  "gaussian_radius_multiple (set_resolution res gm) = gaussian_radius_multiple gm"
  "final_radius_multiple (set_resolution res gm) = final_radius_multiple gm"
  "binary (set_resolution res gm) = binary gm"
  by (simp_all add: set_resolution_def)

lemma fields_set_dimension:
  "resolution (set_dimension d gm) = resolution gm"
  "dimension (set_dimension d gm) = d"
  "radius_scale (set_dimension d gm) = radius_scale gm"
  "gaussian_radius_multiple (set_dimension d gm) = gaussian_radius_multiple gm"
  "final_radius_multiple (set_dimension d gm) = final_radius_multiple gm"
  "binary (set_dimension d gm) = binary gm"
  by (simp_all add: set_dimension_def)

lemma fields_set_binary:
  "resolution (set_binary b gm) = resolution gm"
  "dimension (set_binary b gm) = dimension gm"
  "radius_scale (set_binary b gm) = radius_scale gm"
  "gaussian_radius_multiple (set_binary b gm) = gaussian_radius_multiple gm"
  "final_radius_multiple (set_binary b gm) = final_radius_multiple gm"
  "binary (set_binary b gm) = b"
  "dim (set_binary b gm) = dim gm"
  by (simp_all add: set_binary_def)

lemma fields_initialize:
  "resolution (initialize cf res d bin rscale grm gm) = res"
  "dimension (initialize cf res d bin rscale grm gm) = d"
  "radius_scale (initialize cf res d bin rscale grm gm) = rscale"
  "gaussian_radius_multiple (initialize cf res d bin rscale grm gm) = grm"
  "final_radius_multiple (initialize cf res d bin rscale grm gm) = (1 + 2 * grm * grm) / (2 * grm)"
  "binary (initialize cf res d bin rscale grm gm) = bin"
  by (simp_all add: initialize_def split: prod.split)




section \<open>The cutoff multiple\<close>

text \<open>
  Claim C5. For every \<open>G > 0\<close> given to the constructor or to \<^verbatim>\<open>initialize\<close>, the
  stored \<open>final_radius_multiple\<close> is \<open>(1 + 2G\<^sup>2)/(2G)\<close> afterwards, whatever the
  storage held and although the constructor's initialiser list stores 0 first; so it is
  not 0 in a constructed object.
\<close>

theorem final_radius_multiple_recomputed:
  assumes "0 < G"
  shows "final_radius_multiple (GridMaker cf raw res d bin rscale G) = (1 + 2 * G\<^sup>2) / (2 * G)
    \<and> final_radius_multiple (initialize cf res d bin rscale G gm) = (1 + 2 * G\<^sup>2) / (2 * G)
    \<and> final_radius_multiple (GridMaker cf raw res d bin rscale G) \<noteq> 0"
proof -
  have eq: "(1 + 2 * G * G) / (2 * G) = (1 + 2 * G\<^sup>2) / (2 * G)"
    by (simp add: power2_eq_square)
  have pos: "0 < (1 + 2 * G\<^sup>2) / (2 * G)"
    using assms by (simp add: add_pos_nonneg)
  have ctor: "final_radius_multiple (GridMaker cf raw res d bin rscale G) = (1 + 2 * G\<^sup>2) / (2 * G)"
    unfolding GridMaker_def by (simp only: fields_initialize eq)
  have init: "final_radius_multiple (initialize cf res d bin rscale G gm) = (1 + 2 * G\<^sup>2) / (2 * G)"
    by (simp only: fields_initialize eq)
  have "(1 + 2 * G\<^sup>2) / (2 * G) \<noteq> 0"
    using pos by linarith
  with ctor init show ?thesis by (simp only: simp_thms)
qed

theorem final_radius_multiple_recomputed_witness:
  "final_radius_multiple (GridMaker (\<lambda>G. (0, 0, 0, 0, 0)) zeroed (1 / 10) 6 False 1 1) = 3 / 2
   \<and> final_radius_multiple
       (initialize (\<lambda>G. (0, 0, 0, 0, 0)) (1 / 10) 6 False 1 2
          (GridMaker (\<lambda>G. (0, 0, 0, 0, 0)) zeroed (1 / 10) 6 False 1 1)) = 9 / 4"
proof -
  have one: "(0::float) < 1" and two: "(0::float) < 2" by simp_all
  show ?thesis
    using final_radius_multiple_recomputed [OF one, where cf = "\<lambda>G. (0, 0, 0, 0, 0)"
        and raw = zeroed and res = "1 / 10" and d = 6 and bin = False and rscale = 1]
      final_radius_multiple_recomputed [OF two, where cf = "\<lambda>G. (0, 0, 0, 0, 0)"
        and res = "1 / 10" and d = 6 and bin = False and rscale = 1
        and gm = "GridMaker (\<lambda>G. (0, 0, 0, 0, 0)) zeroed (1 / 10) 6 False 1 1"]
    by simp
qed

section \<open>Typing checks of the CoordinateSet overloads\<close>

text \<open>
  Claim C7. Each \<^verbatim>\<open>backward\<close> overload that takes a \<^verbatim>\<open>CoordinateSet\<close> throws
  \<^verbatim>\<open>std::invalid_argument\<close> when the set lacks the typing it needs: vector types for
  the overload that produces type gradients, indexed types for the one that produces
  atom gradients only; \<^verbatim>\<open>backward_relevance\<close> throws whenever the set lacks indexed
  types, whether or not it has vector types. In each case the tensor-level operation is
  not called and the output tensors are as the caller passed them.
\<close>

theorem missing_typing_throws_and_writes_nothing:
  "(\<not> has_vector_types inp \<longrightarrow>
      backward_coordset_types backward_vector grid_center inp diff atomic_gradients type_gradients
        = Throws (invalid_argument ''Vector types missing from coordinate set'')
            (atomic_gradients, type_gradients))
   \<and> (\<not> has_indexed_types inp \<longrightarrow>
      backward_coordset backward_index grid_center inp diff atomic_gradients
        = Throws (invalid_argument ''Index types missing from coordinate set'') atomic_gradients)
   \<and> (\<not> has_indexed_types inp \<longrightarrow>
      backward_relevance_coordset relevance_index grid_center inp density diff relevance
        = Throws (invalid_argument ''Index types missing from coordinate set in backward relevance'')
            relevance)"
  by (simp add: backward_coordset_types_def backward_coordset_def backward_relevance_coordset_def)

theorem missing_typing_throws_and_writes_nothing_witness:
  "backward_coordset_types (\<lambda>c xs ts rs df ag tg. Returns ([], [])) (make_float3 0 0 0)
      indexed_atom [[[[1]]]] [[7, 7, 7]] [[7, 7]]
     = Throws (invalid_argument ''Vector types missing from coordinate set'') ([[7, 7, 7]], [[7, 7]])
   \<and> backward_coordset (\<lambda>c xs ts rs df ag. Returns []) (make_float3 0 0 0)
      vector_atom [[[[1]]]] [[7, 7, 7]]
     = Throws (invalid_argument ''Index types missing from coordinate set'') [[7, 7, 7]]
   \<and> backward_relevance_coordset (\<lambda>c xs ts rs dn df rl. Returns []) (make_float3 0 0 0)
      vector_atom [[[[1]]]] [[[[1]]]] [7]
     = Throws (invalid_argument ''Index types missing from coordinate set in backward relevance'') [7]"
proof -
  have no_vec: "\<not> has_vector_types indexed_atom"
    by (simp add: indexed_atom_def)
  have no_idx: "\<not> has_indexed_types vector_atom"
    by (simp add: vector_atom_def)
  show ?thesis
    using no_vec no_idx
      missing_typing_throws_and_writes_nothing [where inp = indexed_atom]
      missing_typing_throws_and_writes_nothing [where inp = vector_atom]
    by blast
qed

text \<open>
  Claim C10. The \<^verbatim>\<open>forward\<close> overload that takes a \<^verbatim>\<open>CoordinateSet\<close> is the
  indexed tensor-level \<^verbatim>\<open>forward\<close> on the set's coordinates, type indices and radii
  when the set has indexed types, and the vector tensor-level \<^verbatim>\<open>forward\<close> on its
  coordinates, type vectors and radii otherwise. It has no typing error of its own:
  whatever it throws, the tensor-level operation it called has thrown.
\<close>

theorem forward_coordset_dispatches:
  "(has_indexed_types inp \<longrightarrow>
      forward_coordset forward_index forward_vector grid_center inp out
        = forward_index grid_center (coords inp) (type_index inp) (radii inp) out)
   \<and> (\<not> has_indexed_types inp \<longrightarrow>
      forward_coordset forward_index forward_vector grid_center inp out
        = forward_vector grid_center (coords inp) (type_vector inp) (radii inp) out)
   \<and> (\<forall>e left. forward_coordset forward_index forward_vector grid_center inp out = Throws e left \<longrightarrow>
        forward_index grid_center (coords inp) (type_index inp) (radii inp) out = Throws e left
        \<or> forward_vector grid_center (coords inp) (type_vector inp) (radii inp) out = Throws e left)"
  by (simp add: forward_coordset_def)

theorem forward_coordset_dispatches_witness:
  "forward_coordset (\<lambda>c xs ts rs g. Returns [[[[1]]]]) (\<lambda>c xs tv rs g. Returns [[[[2]]]])
      (make_float3 0 0 0) indexed_atom [[[[0]]]] = Returns [[[[1]]]]
   \<and> forward_coordset (\<lambda>c xs ts rs g. Returns [[[[1]]]]) (\<lambda>c xs tv rs g. Returns [[[[2]]]])
      (make_float3 0 0 0) vector_atom [[[[0]]]] = Returns [[[[2]]]]
   \<and> forward_coordset (\<lambda>c xs ts rs g. Returns [[[[1]]]]) (\<lambda>c xs tv rs g. Returns [[[[2]]]])
      (make_float3 0 0 0) (vector_atom\<lparr>has_vector_types := False\<rparr>) [[[[0]]]] = Returns [[[[2]]]]"
proof -
  have idx: "has_indexed_types indexed_atom"
    by (simp add: indexed_atom_def)
  have vec: "\<not> has_indexed_types vector_atom"
    by (simp add: vector_atom_def)
  have neither: "\<not> has_indexed_types (vector_atom\<lparr>has_vector_types := False\<rparr>)"
    by (simp add: vector_atom_def)
  show ?thesis
    using idx vec neither
      forward_coordset_dispatches [where inp = indexed_atom]
      forward_coordset_dispatches [where inp = vector_atom]
      forward_coordset_dispatches [where inp = "vector_atom\<lparr>has_vector_types := False\<rparr>"]
    by simp
qed

section \<open>The cached coefficients\<close>

lemma coefficients_set_resolution:
  "coefficients_of (set_resolution res gm) = coefficients_of gm"
  by (simp add: coefficients_of_def set_resolution_def)

lemma coefficients_set_dimension:
  "coefficients_of (set_dimension d gm) = coefficients_of gm"
  by (simp add: coefficients_of_def set_dimension_def)

lemma coefficients_set_binary:
  "coefficients_of (set_binary b gm) = coefficients_of gm"
  by (simp add: coefficients_of_def set_binary_def)

lemma coefficients_initialize:
  "coefficients_of (initialize cf res d bin rscale grm gm) = cf grm"
  by (simp add: coefficients_of_def initialize_def split: prod.split)

lemma reachable_coefficients:
  assumes "reachable cf gm"
  shows "coefficients_of gm = cf (gaussian_radius_multiple gm)"
  using assms
proof (induction rule: reachable.induct)
  case (constructed raw res d bin rscale grm)
  show ?case
    unfolding GridMaker_def by (simp only: coefficients_initialize fields_initialize)
next
  case (initialized gm res d bin rscale grm)
  show ?case by (simp only: coefficients_initialize fields_initialize)
next
  case (resolution_set gm res)
  then show ?case by (simp only: coefficients_set_resolution fields_set_resolution)
next
  case (dimension_set gm d)
  then show ?case by (simp only: coefficients_set_dimension fields_set_dimension)
next
  case (binary_set gm b)
  then show ?case by (simp only: coefficients_set_binary fields_set_binary)
qed

text \<open>
  Claim C9. In every configuration a caller can reach, and after each of
  \<^verbatim>\<open>set_resolution\<close>, \<^verbatim>\<open>set_dimension\<close>, \<^verbatim>\<open>set_binary\<close> and \<^verbatim>\<open>initialize\<close>
  applied to it, the cached coefficients \<open>A\<close>, \<open>B\<close>, \<open>C\<close>, \<open>D\<close>, \<open>E\<close> are the
  values the current configuration determines, those computed from the current
  \<open>gaussian_radius_multiple\<close>: they are never stale. (The three setters get there by
  leaving the coefficients and \<open>gaussian_radius_multiple\<close> as they found them, which
  the lemmas above record; \<^verbatim>\<open>initialize\<close> writes both.)
\<close>

theorem coefficients_current_after_every_setter:
  "reachable cf gm \<longrightarrow>
     coefficients_of gm = cf (gaussian_radius_multiple gm)
     \<and> coefficients_of (set_resolution res gm)
         = cf (gaussian_radius_multiple (set_resolution res gm))
     \<and> coefficients_of (set_dimension d gm)
         = cf (gaussian_radius_multiple (set_dimension d gm))
     \<and> coefficients_of (set_binary b gm)
         = cf (gaussian_radius_multiple (set_binary b gm))
     \<and> coefficients_of (initialize cf res' d' bin rscale grm gm)
         = cf (gaussian_radius_multiple (initialize cf res' d' bin rscale grm gm))"
proof
  assume r: "reachable cf gm"
  show "coefficients_of gm = cf (gaussian_radius_multiple gm)
     \<and> coefficients_of (set_resolution res gm)
         = cf (gaussian_radius_multiple (set_resolution res gm))
     \<and> coefficients_of (set_dimension d gm)
         = cf (gaussian_radius_multiple (set_dimension d gm))
     \<and> coefficients_of (set_binary b gm)
         = cf (gaussian_radius_multiple (set_binary b gm))
     \<and> coefficients_of (initialize cf res' d' bin rscale grm gm)
         = cf (gaussian_radius_multiple (initialize cf res' d' bin rscale grm gm))"
    by (intro conjI reachable_coefficients r reachable.resolution_set reachable.dimension_set
        reachable.binary_set reachable.initialized)
qed

text \<open>
  The witness follows the grid of the tests, \<^verbatim>\<open>GridMaker(0.1f, 6.0)\<close>, through the
  three setters, and then through \<^verbatim>\<open>initialize\<close> with
  \<open>gaussian_radius_multiple = 2\<close> and a setter again.
\<close>

theorem coefficients_current_after_every_setter_witness:
  "reachable (\<lambda>G. (4 * G, 3 * G, 2 * G, G, 0))
     (set_dimension (47 / 2) (set_resolution (1 / 2)
        (GridMaker (\<lambda>G. (4 * G, 3 * G, 2 * G, G, 0)) zeroed (13421773 / 134217728) 6 False 1 1)))
   \<and> coefficients_of
     (set_binary True (set_dimension (47 / 2) (set_resolution (1 / 2)
        (GridMaker (\<lambda>G. (4 * G, 3 * G, 2 * G, G, 0)) zeroed (13421773 / 134217728) 6 False 1 1))))
     = (4, 3, 2, 1, 0)
   \<and> coefficients_of
     (set_resolution (1 / 2)
        (initialize (\<lambda>G. (4 * G, 3 * G, 2 * G, G, 0)) (13421773 / 134217728) 6 False 1 2
           (GridMaker (\<lambda>G. (4 * G, 3 * G, 2 * G, G, 0)) zeroed (13421773 / 134217728) 6 False 1 1)))
     = (8, 6, 4, 2, 0)"
proof -
  let ?cf = "\<lambda>G::float. (4 * G, 3 * G, 2 * G, G, 0::float)"
  let ?g0 = "GridMaker ?cf zeroed (13421773 / 134217728) 6 False 1 1"
  let ?g2 = "set_dimension (47 / 2) (set_resolution (1 / 2) ?g0)"
  let ?h = "initialize ?cf (13421773 / 134217728) 6 False 1 2 ?g0"
  have r2: "reachable ?cf ?g2"
    by (intro reachable.dimension_set reachable.resolution_set reachable.constructed)
  have rh: "reachable ?cf ?h"
    by (intro reachable.initialized reachable.constructed)
  have "coefficients_of (set_binary True ?g2) = ?cf (gaussian_radius_multiple (set_binary True ?g2))"
    using coefficients_current_after_every_setter [where cf = ?cf and gm = ?g2 and b = True] r2
    by blast
  moreover have "gaussian_radius_multiple (set_binary True ?g2) = 1"
    by (simp add: fields_set_binary fields_set_dimension fields_set_resolution GridMaker_def
        fields_initialize)
  moreover have "coefficients_of (set_resolution (1 / 2) ?h)
      = ?cf (gaussian_radius_multiple (set_resolution (1 / 2) ?h))"
    using coefficients_current_after_every_setter [where cf = ?cf and gm = ?h and res = "1 / 2"] rh
    by blast
  moreover have "gaussian_radius_multiple (set_resolution (1 / 2) ?h) = 2"
    by (simp add: fields_set_resolution fields_initialize)
  ultimately show ?thesis using r2 by simp
qed

section \<open>Type gradients: the loops compute the sum over the bounding box\<close>

lemma fold_add: "fold (\<lambda>x acc. acc + f x) xs = (\<lambda>a::real. a + sum_list (map f xs))"
  by (induction xs) (auto simp: fun_eq_iff)

lemma sum_list_upto: "sum_list (map f [l..u]) = (\<Sum>i = l..u. f i)"
  by (simp add: sum_list_distinct_conv_sum_set)

lemma loops_sum:
  "fold (\<lambda>i. fold (\<lambda>j. fold (\<lambda>k ret. ret + g i j k) [lz..uz]) [ly..uy]) [lx..ux] (0::real)
     = (\<Sum>i = lx..ux. \<Sum>j = ly..uy. \<Sum>k = lz..uz. g i j k)"
  by (simp add: fold_add sum_list_upto)

lemma bounds_in_grid:
  assumes "get_bounds_1d gm origin c rad = (lo, hi)" and "i \<in> {lo..hi}"
  shows "0 \<le> i \<and> i < uint (dim gm)"
  using assms by (auto simp: get_bounds_1d_def)

lemma calc_type_gradient_cpu_sum:
  assumes "get_bounds_1d gm ox (coord ! 0) (final_radius_multiple gm * radius_scale gm * radius) = (lox, hix)"
    and "get_bounds_1d gm oy (coord ! 1) (final_radius_multiple gm * radius_scale gm * radius) = (loy, hiy)"
    and "get_bounds_1d gm oz (coord ! 2) (final_radius_multiple gm * radius_scale gm * radius) = (loz, hiz)"
  shows "calc_type_gradient_cpu gm (make_float3 ox oy oz) coord diff radius
    = (\<Sum>i = lox..hix. \<Sum>j = loy..hiy. \<Sum>k = loz..hiz.
         diff ! nat i ! nat j ! nat k
           * calc_point gm (coord ! 0) (coord ! 1) (coord ! 2) radius
               (make_float3 (ox + of_int i * resolution gm) (oy + of_int j * resolution gm)
                  (oz + of_int k * resolution gm)))"
  unfolding calc_type_gradient_cpu_def
  by (simp only: float3.case Let_def assms prod.case loops_sum)

lemma test_gm_fields:
  "resolution (GridMaker cf zeroed (1 / 10) 6 False 1 1) = 1 / 10"
  "dimension (GridMaker cf zeroed (1 / 10) 6 False 1 1) = 6"
  "radius_scale (GridMaker cf zeroed (1 / 10) 6 False 1 1) = 1"
  "final_radius_multiple (GridMaker cf zeroed (1 / 10) 6 False 1 1) = 3 / 2"
  "dim (GridMaker cf zeroed (1 / 10) 6 False 1 1) = 61"
  by (simp_all add: GridMaker_def fields_initialize dim_initialize recomputed_dim_61)

lemma test_bounds:
  "get_bounds_1d (GridMaker cf zeroed (1 / 10) 6 False 1 1) (- 3) 0 3 = (0, 60)"
  by (simp add: get_bounds_1d_def test_gm_fields)

lemma test_diff_channel0:
  assumes "i \<in> {0..60}" "j \<in> {0..60}" "k \<in> {0..60}"
  shows "test_diff ! 0 ! nat i ! nat j ! nat k = (if i = 30 \<and> j = 30 \<and> k = 30 then 1 else 0)"
proof -
  have "nat i < 61" "nat j < 61" "nat k < 61" using assms by auto
  moreover have "nat i = 30 \<longleftrightarrow> i = 30" "nat j = 30 \<longleftrightarrow> j = 30" "nat k = 30 \<longleftrightarrow> k = 30"
    using assms by auto
  ultimately show ?thesis
    by (simp add: test_diff_def zero_channel_def nth_list_update)
qed

lemma test_diff_channel1:
  assumes "i \<in> {0..60}" "j \<in> {0..60}" "k \<in> {0..60}"
  shows "test_diff ! 1 ! nat i ! nat j ! nat k = 0"
proof -
  have "nat i < 61" "nat j < 61" "nat k < 61" using assms by auto
  then show ?thesis
    by (simp add: test_diff_def zero_channel_def)
qed

lemma single_voxel_sum:
  fixes g :: "int \<Rightarrow> int \<Rightarrow> int \<Rightarrow> real"
  assumes "a \<in> {l..u}"
  shows "(\<Sum>i = l..u. \<Sum>j = l..u. \<Sum>k = l..u.
            (if i = a \<and> j = a \<and> k = a then 1 else 0) * g i j k) = g a a a"
proof -
  have inner: "(\<Sum>k = l..u. (if i = a \<and> j = a \<and> k = a then 1 else 0) * g i j k)
      = (if i = a \<and> j = a then g i j a else 0)" for i j
  proof (cases "i = a \<and> j = a")
    case True
    then have "(\<Sum>k = l..u. (if i = a \<and> j = a \<and> k = a then 1 else 0) * g i j k)
        = (\<Sum>k = l..u. if k = a then g i j k else 0)"
      by (intro sum.cong) auto
    also have "\<dots> = g i j a"
      using assms by (simp add: sum.delta)
    finally show ?thesis using True by simp
  next
    case False
    then show ?thesis by auto
  qed
  have middle: "(\<Sum>j = l..u. (if i = a \<and> j = a then g i j a else 0))
      = (if i = a then g i a a else 0)" for i
    using assms by (simp add: sum.delta' cong: if_cong)
  show ?thesis
    unfolding inner middle using assms by (simp add: sum.delta')
qed

text \<open>
  Claim C6. In vector-typing mode the type gradient of atom \<open>n\<close> for channel \<open>t\<close> is
  the sum, over the voxels \<open>(i, j, k)\<close> of the atom's bounding box, of
  \<open>diff[t][i][j][k]\<close> times the density of atom \<open>n\<close> alone at that voxel. So where
  \<open>diff\<close> of channel \<open>t\<close> vanishes on the whole box the type gradient is exactly 0,
  whatever the atom's type vector holds. Every voxel of the box lies inside the grid.
\<close>

theorem type_gradient_is_sum_over_bounding_box:
  assumes "n < length atom_coords" and "t < length diff"
    and "get_grid_origin gm grid_center = make_float3 ox oy oz"
    and "get_bounds_1d gm ox (atom_coords ! n ! 0)
           (final_radius_multiple gm * radius_scale gm * atom_radii ! n) = (lox, hix)"
    and "get_bounds_1d gm oy (atom_coords ! n ! 1)
           (final_radius_multiple gm * radius_scale gm * atom_radii ! n) = (loy, hiy)"
    and "get_bounds_1d gm oz (atom_coords ! n ! 2)
           (final_radius_multiple gm * radius_scale gm * atom_radii ! n) = (loz, hiz)"
  shows "backward_type_gradients gm grid_center atom_coords type_vectors atom_radii diff ! n ! t
      = (\<Sum>i = lox..hix. \<Sum>j = loy..hiy. \<Sum>k = loz..hiz.
           diff ! t ! nat i ! nat j ! nat k
             * calc_point gm (atom_coords ! n ! 0) (atom_coords ! n ! 1) (atom_coords ! n ! 2)
                 (atom_radii ! n)
                 (make_float3 (ox + of_int i * resolution gm) (oy + of_int j * resolution gm)
                    (oz + of_int k * resolution gm)))
    \<and> ((\<forall>i\<in>{lox..hix}. \<forall>j\<in>{loy..hiy}. \<forall>k\<in>{loz..hiz}. diff ! t ! nat i ! nat j ! nat k = 0) \<longrightarrow>
         backward_type_gradients gm grid_center atom_coords type_vectors atom_radii diff ! n ! t = 0)
    \<and> (\<forall>i\<in>{lox..hix}. \<forall>j\<in>{loy..hiy}. \<forall>k\<in>{loz..hiz}.
          0 \<le> i \<and> i < uint (dim gm) \<and> 0 \<le> j \<and> j < uint (dim gm) \<and> 0 \<le> k \<and> k < uint (dim gm))"
proof -
  let ?tg = "backward_type_gradients gm grid_center atom_coords type_vectors atom_radii diff ! n ! t"
  have entry: "?tg = calc_type_gradient_cpu gm (make_float3 ox oy oz) (atom_coords ! n) (diff ! t)
      (atom_radii ! n)"
    using assms(1,2) by (simp add: backward_type_gradients_def assms(3))
  have sum: "?tg = (\<Sum>i = lox..hix. \<Sum>j = loy..hiy. \<Sum>k = loz..hiz.
           diff ! t ! nat i ! nat j ! nat k
             * calc_point gm (atom_coords ! n ! 0) (atom_coords ! n ! 1) (atom_coords ! n ! 2)
                 (atom_radii ! n)
                 (make_float3 (ox + of_int i * resolution gm) (oy + of_int j * resolution gm)
                    (oz + of_int k * resolution gm)))"
    unfolding entry by (rule calc_type_gradient_cpu_sum [OF assms(4,5,6)])
  have zero: "?tg = 0"
    if "\<forall>i\<in>{lox..hix}. \<forall>j\<in>{loy..hiy}. \<forall>k\<in>{loz..hiz}. diff ! t ! nat i ! nat j ! nat k = 0"
    unfolding sum using that by simp
  have inside: "\<forall>i\<in>{lox..hix}. \<forall>j\<in>{loy..hiy}. \<forall>k\<in>{loz..hiz}.
          0 \<le> i \<and> i < uint (dim gm) \<and> 0 \<le> j \<and> j < uint (dim gm) \<and> 0 \<le> k \<and> k < uint (dim gm)"
    using bounds_in_grid [OF assms(4)] bounds_in_grid [OF assms(5)] bounds_in_grid [OF assms(6)]
    by blast
  from sum zero inside show ?thesis by blast
qed

theorem type_gradient_is_sum_over_bounding_box_witness:
  "backward_type_gradients (GridMaker (\<lambda>G. (0, 0, 0, 0, 0)) zeroed (1 / 10) 6 False 1 1)
     (make_float3 0 0 0) [[0, 0, 0]] [[0, 1]] [2] test_diff ! 0 ! 1 = 0
   \<and> backward_type_gradients (GridMaker (\<lambda>G. (0, 0, 0, 0, 0)) zeroed (1 / 10) 6 False 1 1)
     (make_float3 0 0 0) [[0, 0, 0]] [[0, 1]] [2] test_diff ! 0 ! 0 = 1"
proof -
  let ?gm = "GridMaker (\<lambda>G::float. (0::float, 0::float, 0::float, 0::float, 0::float))
    zeroed (1 / 10) 6 False 1 1"
  let ?tg = "backward_type_gradients ?gm (make_float3 0 0 0) [[0, 0, 0]] [[0, 1]] [2] test_diff"
  have o: "get_grid_origin ?gm (make_float3 0 0 0) = make_float3 (- 3) (- 3) (- 3)"
    by (simp add: get_grid_origin_def test_gm_fields)
  have b: "get_bounds_1d ?gm (- 3) ([[0, 0, 0]] ! 0 ! m)
      (final_radius_multiple ?gm * radius_scale ?gm * [2] ! 0) = (0, 60)" if "m < 3" for m
  proof -
    have "[[0, 0, 0 :: float]] ! 0 ! m = 0"
      using that by (cases m) (auto simp: nth_Cons split: nat.splits)
    then show ?thesis by (simp add: test_gm_fields test_bounds)
  qed
  have n: "0 < length [[0, 0, 0 :: float]]"
    and t0: "0 < length test_diff" and t1: "1 < length test_diff"
    by (simp_all add: test_diff_def)
  have z: "\<forall>i\<in>{0..60}. \<forall>j\<in>{0..60}. \<forall>k\<in>{0..60}. test_diff ! 1 ! nat i ! nat j ! nat k = 0"
    using test_diff_channel1 by blast
  have second: "?tg ! 0 ! 1 = 0"
    using type_gradient_is_sum_over_bounding_box
      [OF n t1 o b [of 0] b [of 1] b [of 2], where type_vectors = "[[0, 1]]"] z
    by simp
  let ?f = "\<lambda>i j k. calc_point ?gm 0 0 0 2
     (make_float3 (- 3 + of_int i * (1 / 10)) (- 3 + of_int j * (1 / 10)) (- 3 + of_int k * (1 / 10)))"
  have "?tg ! 0 ! 0
    = (\<Sum>i = 0..60. \<Sum>j = 0..60. \<Sum>k = 0..60. test_diff ! 0 ! nat i ! nat j ! nat k * ?f i j k)"
    using type_gradient_is_sum_over_bounding_box
      [OF n t0 o b [of 0] b [of 1] b [of 2], where type_vectors = "[[0, 1]]"]
    by (simp add: test_gm_fields)
  also have "\<dots> = (\<Sum>i = 0..60. \<Sum>j = 0..60. \<Sum>k = 0..60.
      (if i = 30 \<and> j = 30 \<and> k = 30 then 1 else 0) * ?f i j k)"
    by (intro sum.cong refl arg_cong2 [where f = "(*)"] test_diff_channel0)
  also have "\<dots> = ?f 30 30 30"
    by (rule single_voxel_sum) simp
  also have "\<dots> = 1"
    by (simp add: calc_point_def test_gm_fields)
  finally have first: "?tg ! 0 ! 0 = 1" .
  from second first show ?thesis by simp
qed

end
